theory Spec2Isabelle
  imports Main
begin

section \<open>The documents that json.load returns\<close>

text \<open>
  \<^verbatim>\<open>script.py\<close> is five statements: \<^verbatim>\<open>load_dotenv()\<close>, \<^verbatim>\<open>os.getenv(...)\<close>,
  \<^verbatim>\<open>with open(credentials_path, 'r') as f\<close>, \<^verbatim>\<open>json.load(f)\<close> and \<^verbatim>\<open>print(...)\<close>.
  Everything it does is done by the interpreter and its libraries, so the model
  starts with what those calls compute.

  A parsed document is a Python object built by the json decoder: \<^verbatim>\<open>None\<close>, a bool,
  an int, a float, a str, a list or a dict. Python ints are unbounded (\<open>int\<close>). A float
  is kept as the literal the decoder matched (\<open>nan\<close>, \<open>inf\<close>, \<open>-inf\<close> for the three
  constants); its rounding to binary64 is not modelled. A dict is an association list
  with distinct keys in insertion order, which is the order \<^verbatim>\<open>print\<close> shows.
  Text is held as its UTF-8 bytes, one \<open>char\<close> each.

  \<open>json_loads\<close> below is the grammar the decoder CPython runs by default accepts:
  strict strings, and the constants \<^verbatim>\<open>NaN\<close>, \<^verbatim>\<open>Infinity\<close> and \<^verbatim>\<open>-Infinity\<close> beside
  JSON. What the interpreter refuses on top of the grammar (an integer literal over
  the digit limit, containers nested deeper than its stack allows) is added where the
  script calls \<^verbatim>\<open>json.load\<close>.
\<close>

datatype json =
    JNull
  | JBool bool
  | JInt int
  | JFloat string
  | JString string
  | JArray "json list"
  | JObject "(string \<times> json) list"

subsection \<open>Characters\<close>

definition is_ws :: "char \<Rightarrow> bool" where
  \<comment> \<open>WHITESPACE of json.decoder: space, tab, line feed, carriage return\<close>
  "is_ws c = (c = CHR '' '' \<or> c = CHR 0x09 \<or> c = CHR 0x0A \<or> c = CHR 0x0D)"

definition is_digit :: "char \<Rightarrow> bool" where
  "is_digit c = (c \<in> set ''0123456789'')"

definition digit_val :: "char \<Rightarrow> nat" where
  "digit_val c = of_char c - 48"

definition hex_val :: "char \<Rightarrow> nat option" where
  "hex_val c =
     (if is_digit c then Some (of_char c - 48)
      else if c \<in> set ''abcdef'' then Some (of_char c - 87)
      else if c \<in> set ''ABCDEF'' then Some (of_char c - 55)
      else None)"

fun hex_digits :: "nat \<Rightarrow> string \<Rightarrow> nat option" where
  "hex_digits acc [] = Some acc"
| "hex_digits acc (c # cs) =
     (case hex_val c of None \<Rightarrow> None | Some d \<Rightarrow> hex_digits (16 * acc + d) cs)"

definition decode_uXXXX :: "string \<Rightarrow> nat option" where
  \<comment> \<open>the four hexadecimal digits after \<^verbatim>\<open>\u\<close>\<close>
  "decode_uXXXX s = (if length (take 4 s) = 4 then hex_digits 0 (take 4 s) else None)"

definition utf8 :: "nat \<Rightarrow> string" where
  \<comment> \<open>the bytes of one code point; a lone surrogate takes the three-byte form\<close>
  "utf8 n =
     (if n < 0x80 then [char_of n]
      else if n < 0x800 then [char_of (0xC0 + n div 64), char_of (0x80 + n mod 64)]
      else if n < 0x10000 then
        [char_of (0xE0 + n div 4096), char_of (0x80 + n div 64 mod 64), char_of (0x80 + n mod 64)]
      else
        [char_of (0xF0 + n div 262144), char_of (0x80 + n div 4096 mod 64),
         char_of (0x80 + n div 64 mod 64), char_of (0x80 + n mod 64)])"

subsection \<open>String literals\<close>

definition backslash :: "char \<Rightarrow> char option" where
  \<comment> \<open>BACKSLASH of json.decoder: the one-character escapes\<close>
  "backslash e =
     (if e = CHR 0x22 \<or> e = CHR 0x5C \<or> e = CHR ''/'' then Some e
      else if e = CHR ''b'' then Some (CHR 0x08)
      else if e = CHR ''f'' then Some (CHR 0x0C)
      else if e = CHR ''n'' then Some (CHR 0x0A)
      else if e = CHR ''r'' then Some (CHR 0x0D)
      else if e = CHR ''t'' then Some (CHR 0x09)
      else None)"

definition low_surrogate_after :: "string \<Rightarrow> nat option" where
  \<comment> \<open>a second \<^verbatim>\<open>\uXXXX\<close> escape that is a low surrogate, directly after a high one\<close>
  "low_surrogate_after s =
     (case s of
        b # u # r \<Rightarrow>
          if b = CHR 0x5C \<and> u = CHR ''u'' then
            (case decode_uXXXX r of
               None \<Rightarrow> None
             | Some lo \<Rightarrow> if 0xDC00 \<le> lo \<and> lo \<le> 0xDFFF then Some lo else None)
          else None
      | _ \<Rightarrow> None)"

definition scan_escape :: "string \<Rightarrow> (string \<times> string) option" where
  \<comment> \<open>what follows a backslash inside a string: the decoded text and the rest\<close>
  "scan_escape s =
     (case s of
        [] \<Rightarrow> None
      | e # r \<Rightarrow>
          if e = CHR ''u'' then
            (case decode_uXXXX r of
               None \<Rightarrow> None
             | Some uni \<Rightarrow>
                 (case (if 0xD800 \<le> uni \<and> uni \<le> 0xDBFF
                        then low_surrogate_after (drop 4 r) else None) of
                    Some uni2 \<Rightarrow>
                      Some (utf8 (0x10000 + (uni - 0xD800) * 1024 + (uni2 - 0xDC00)), drop 10 r)
                  | None \<Rightarrow> Some (utf8 uni, drop 4 r)))
          else map_option (\<lambda>ch. ([ch], r)) (backslash e))"

lemma scan_escape_rest: "scan_escape s = Some (chars, rest) \<Longrightarrow> length rest < length s"
  by (cases s) (auto simp: scan_escape_def split: if_splits option.splits)

text \<open>
  \<open>scanstring\<close> runs after the opening quote, in strict mode: a raw control character
  ends the parse with an error, as does an unknown escape or a missing closing quote.
\<close>

function scanstring :: "string \<Rightarrow> string \<Rightarrow> (string \<times> string) option" where
  "scanstring acc [] = None"
| "scanstring acc (c # cs) =
     (if c = CHR 0x22 then Some (rev acc, cs)
      else if c = CHR 0x5C then
        (case scan_escape cs of
           None \<Rightarrow> None
         | Some (chars, rest) \<Rightarrow> scanstring (rev chars @ acc) rest)
      else if (of_char c :: nat) < 0x20 then None
      else scanstring (c # acc) cs)"
  by pat_completeness auto
termination
proof (relation "measure (\<lambda>(acc, s). length s)", goal_cases)
  case 1
  show ?case by simp
next
  case (2 acc c cs x2 chars rest)
  then have "scan_escape cs = Some (chars, rest)" by simp
  from scan_escape_rest [OF this] show ?case by simp
next
  case (3 acc c cs)
  show ?case by simp
qed

lemma scanstring_rest: "scanstring acc cs = Some (s, rest) \<Longrightarrow> length rest \<le> length cs"
proof (induction acc cs rule: scanstring.induct)
  case (1 acc)
  then show ?case by simp
next
  case (2 acc c cs)
  show ?case
  proof (cases "c = CHR 0x22")
    case True
    with "2.prems" show ?thesis by simp
  next
    case quote: False
    show ?thesis
    proof (cases "c = CHR 0x5C")
      case True
      with quote "2.prems" obtain chars r where
        e: "scan_escape cs = Some (chars, r)" and
        s: "scanstring (rev chars @ acc) r = Some (s, rest)"
        by (auto split: option.splits)
      from "2.IH"(1) [OF quote True e refl s] have "length rest \<le> length r" .
      with scan_escape_rest [OF e] show ?thesis by simp
    next
      case False
      with quote "2.prems" have c: "\<not> (of_char c :: nat) < 0x20"
        and s: "scanstring (c # acc) cs = Some (s, rest)"
        by (auto split: if_splits)
      from "2.IH"(2) [OF quote False c s] show ?thesis by simp
    qed
  qed
qed

subsection \<open>Numbers and constants\<close>

text \<open>
  NUMBER_RE of json.scanner is
  \<^verbatim>\<open>(-?(?:0|[1-9][0-9]*))(\.[0-9]+)?([eE][-+]?[0-9]+)?\<close>: an integer part, then a
  fraction and an exponent that are taken only when complete. With neither the
  result is an int, otherwise a float.
\<close>

definition int_of_digits :: "string \<Rightarrow> int" where
  "int_of_digits ds = int (foldl (\<lambda>n d. 10 * n + digit_val d) 0 ds)"

definition scan_integer :: "string \<Rightarrow> (string \<times> string) option" where
  "scan_integer s =
     (case s of
        [] \<Rightarrow> None
      | d # r \<Rightarrow>
          if d = CHR ''0'' then Some ([d], r)
          else if is_digit d then Some (d # takeWhile is_digit r, dropWhile is_digit r)
          else None)"

definition scan_frac :: "string \<Rightarrow> string \<times> string" where
  "scan_frac s =
     (case s of
        p # d # r \<Rightarrow>
          if p = CHR ''.'' \<and> is_digit d
          then (p # d # takeWhile is_digit r, dropWhile is_digit r)
          else ([], s)
      | _ \<Rightarrow> ([], s))"

definition scan_exp :: "string \<Rightarrow> string \<times> string" where
  "scan_exp s =
     (case s of
        e # r \<Rightarrow>
          if e = CHR ''e'' \<or> e = CHR ''E'' then
            (case r of
               g # d # r' \<Rightarrow>
                 if (g = CHR ''-'' \<or> g = CHR ''+'') \<and> is_digit d
                 then (e # g # d # takeWhile is_digit r', dropWhile is_digit r')
                 else if is_digit g
                 then (e # takeWhile is_digit r, dropWhile is_digit r)
                 else ([], s)
             | [g] \<Rightarrow> if is_digit g then ([e, g], []) else ([], s)
             | [] \<Rightarrow> ([], s))
          else ([], s)
      | [] \<Rightarrow> ([], s))"

definition match_number :: "string \<Rightarrow> (json \<times> string) option" where
  "match_number s =
     (let (neg, s1) = (case s of c # r \<Rightarrow> if c = CHR ''-'' then (True, r) else (False, s)
                                | [] \<Rightarrow> (False, s))
      in case scan_integer s1 of
           None \<Rightarrow> None
         | Some (integer, s2) \<Rightarrow>
             (let (frac, s3) = scan_frac s2; (exp, s4) = scan_exp s3
              in if frac = [] \<and> exp = []
                 then Some (JInt (if neg then - int_of_digits integer else int_of_digits integer), s2)
                 else Some (JFloat ((if neg then ''-'' else []) @ integer @ frac @ exp), s4)))"

definition match_keyword :: "string \<Rightarrow> string \<Rightarrow> string option" where
  "match_keyword kw s = (if take (length kw) s = kw then Some (drop (length kw) s) else None)"

definition scan_atom :: "string \<Rightarrow> (json \<times> string) option" where
  \<comment> \<open>the branches of scan_once for a value that is neither a string nor a container,
      in its order\<close>
  "scan_atom s =
     (case match_keyword ''null'' s of Some r \<Rightarrow> Some (JNull, r) | None \<Rightarrow>
      case match_keyword ''true'' s of Some r \<Rightarrow> Some (JBool True, r) | None \<Rightarrow>
      case match_keyword ''false'' s of Some r \<Rightarrow> Some (JBool False, r) | None \<Rightarrow>
      case match_number s of Some m \<Rightarrow> Some m | None \<Rightarrow>
      case match_keyword ''NaN'' s of Some r \<Rightarrow> Some (JFloat ''nan'', r) | None \<Rightarrow>
      case match_keyword ''Infinity'' s of Some r \<Rightarrow> Some (JFloat ''inf'', r) | None \<Rightarrow>
      case match_keyword ''-Infinity'' s of Some r \<Rightarrow> Some (JFloat ''-inf'', r) | None \<Rightarrow>
      None)"

lemma scan_integer_rest: "scan_integer s = Some (ds, rest) \<Longrightarrow> length rest < length s"
  by (auto simp: scan_integer_def less_Suc_eq_le length_dropWhile_le split: list.splits if_splits)

lemma scan_frac_rest: "scan_frac s = (ds, rest) \<Longrightarrow> length rest \<le> length s"
  by (auto simp: scan_frac_def le_SucI length_dropWhile_le split: list.splits if_splits)

lemma scan_exp_rest: "scan_exp s = (ds, rest) \<Longrightarrow> length rest \<le> length s"
  by (auto simp: scan_exp_def le_SucI length_dropWhile_le split: list.splits if_splits)

lemma match_number_rest: "match_number s = Some (v, rest) \<Longrightarrow> length rest < length s"
proof -
  assume m: "match_number s = Some (v, rest)"
  obtain neg s1 where
    s1: "(case s of c # r \<Rightarrow> if c = CHR ''-'' then (True, r) else (False, s)
                  | [] \<Rightarrow> (False, s)) = (neg, s1)"
    by (cases "case s of c # r \<Rightarrow> if c = CHR ''-'' then (True, r) else (False, s)
                       | [] \<Rightarrow> (False, s)") auto
  have l1: "length s1 \<le> length s"
    using s1 by (auto split: list.splits if_splits)
  from m s1 obtain integer s2 where i: "scan_integer s1 = Some (integer, s2)"
    by (auto simp: match_number_def split: option.splits)
  obtain frac s3 where f: "scan_frac s2 = (frac, s3)" by (cases "scan_frac s2") auto
  obtain ex s4 where e: "scan_exp s3 = (ex, s4)" by (cases "scan_exp s3") auto
  have "rest = s2 \<or> rest = s4"
    using m s1 i f e by (auto simp: match_number_def split: if_splits)
  moreover have "length s2 < length s1" using i by (rule scan_integer_rest)
  moreover have "length s3 \<le> length s2" using f by (rule scan_frac_rest)
  moreover have "length s4 \<le> length s3" using e by (rule scan_exp_rest)
  ultimately show ?thesis using l1 by auto
qed

lemma match_keyword_rest: "match_keyword (k # kw) s = Some rest \<Longrightarrow> length rest < length s"
  by (cases s) (auto simp: match_keyword_def split: if_splits)

lemma scan_atom_rest: "scan_atom s = Some (v, rest) \<Longrightarrow> length rest < length s"
  unfolding scan_atom_def
  by (auto split: option.splits dest: match_keyword_rest match_number_rest)

subsection \<open>Tokens\<close>

datatype token = LBRACE | RBRACE | LBRACKET | RBRACKET | COLON | COMMA | SCALAR json

function tokenize :: "string \<Rightarrow> token list option" where
  "tokenize [] = Some []"
| "tokenize (c # cs) =
     (if is_ws c then tokenize cs
      else if c = CHR ''{'' then map_option ((#) LBRACE) (tokenize cs)
      else if c = CHR ''}'' then map_option ((#) RBRACE) (tokenize cs)
      else if c = CHR ''['' then map_option ((#) LBRACKET) (tokenize cs)
      else if c = CHR '']'' then map_option ((#) RBRACKET) (tokenize cs)
      else if c = CHR '':'' then map_option ((#) COLON) (tokenize cs)
      else if c = CHR '','' then map_option ((#) COMMA) (tokenize cs)
      else if c = CHR 0x22 then
        (case scanstring [] cs of
           None \<Rightarrow> None
         | Some (s, rest) \<Rightarrow> map_option ((#) (SCALAR (JString s))) (tokenize rest))
      else
        (case scan_atom (c # cs) of
           None \<Rightarrow> None
         | Some (v, rest) \<Rightarrow> map_option ((#) (SCALAR v)) (tokenize rest)))"
  by pat_completeness auto
termination
proof (relation "measure length", goal_cases)
  case 1
  show ?case by simp
next
  case (9 c cs x2 s rest)
  then have "scanstring [] cs = Some (s, rest)" by simp
  from scanstring_rest [OF this] show ?case by simp
next
  case (10 c cs x2 v rest)
  then have "scan_atom (c # cs) = Some (v, rest)" by simp
  from scan_atom_rest [OF this] show ?case by simp
qed simp_all

subsection \<open>Arrays, objects and the whole document\<close>

text \<open>
  The decoder builds a dict from the pairs of an object in their order: a repeated
  key keeps its first position and takes the last value.
\<close>

fun dict_setitem :: "string \<Rightarrow> json \<Rightarrow> (string \<times> json) list \<Rightarrow> (string \<times> json) list" where
  "dict_setitem k v [] = [(k, v)]"
| "dict_setitem k v ((k', v') # ps) =
     (if k' = k then (k', v) # ps else (k', v') # dict_setitem k v ps)"

definition dict_of_pairs :: "(string \<times> json) list \<Rightarrow> (string \<times> json) list" where
  "dict_of_pairs ps = foldl (\<lambda>d (k, v). dict_setitem k v d) [] ps"

text \<open>
  The containers are read with an explicit stack of the arrays and objects that are
  still open, one token at a time, so the recursion is on the token list. A frame
  holds what has been read so far, latest first; an object frame also holds the key
  whose value is awaited.
\<close>

datatype frame =
    ArrayFrame "json list"
  | ObjectFrame "(string \<times> json) list" "string option"

datatype expect = ExpValue | ExpValueOrEnd | ExpKey | ExpKeyOrEnd | ExpColon | ExpDelim

datatype pstate = Scanning expect "frame list" | Finished json

fun put :: "json \<Rightarrow> frame list \<Rightarrow> pstate option" where
  "put v [] = Some (Finished v)"
| "put v (ArrayFrame vs # st) = Some (Scanning ExpDelim (ArrayFrame (v # vs) # st))"
| "put v (ObjectFrame ps (Some k) # st) =
     Some (Scanning ExpDelim (ObjectFrame ((k, v) # ps) None # st))"
| "put v (ObjectFrame ps None # st) = None"

fun open_value :: "token \<Rightarrow> frame list \<Rightarrow> pstate option" where
  "open_value (SCALAR v) st = put v st"
| "open_value LBRACKET st = Some (Scanning ExpValueOrEnd (ArrayFrame [] # st))"
| "open_value LBRACE st = Some (Scanning ExpKeyOrEnd (ObjectFrame [] None # st))"
| "open_value _ st = None"

fun close_array :: "frame list \<Rightarrow> pstate option" where
  "close_array (ArrayFrame vs # st) = put (JArray (rev vs)) st"
| "close_array _ = None"

fun close_object :: "frame list \<Rightarrow> pstate option" where
  "close_object (ObjectFrame ps None # st) = put (JObject (dict_of_pairs (rev ps))) st"
| "close_object _ = None"

fun open_key :: "token \<Rightarrow> frame list \<Rightarrow> pstate option" where
  "open_key (SCALAR (JString k)) (ObjectFrame ps None # st) =
     Some (Scanning ExpColon (ObjectFrame ps (Some k) # st))"
| "open_key _ _ = None"

fun step :: "pstate \<Rightarrow> token \<Rightarrow> pstate option" where
  "step (Finished v) t = None"
| "step (Scanning ExpValue st) t = open_value t st"
| "step (Scanning ExpValueOrEnd st) t =
     (if t = RBRACKET then close_array st else open_value t st)"
| "step (Scanning ExpKey st) t = open_key t st"
| "step (Scanning ExpKeyOrEnd st) t =
     (if t = RBRACE then close_object st else open_key t st)"
| "step (Scanning ExpColon st) t = (if t = COLON then Some (Scanning ExpValue st) else None)"
| "step (Scanning ExpDelim st) t =
     (case st of
        ArrayFrame vs # _ \<Rightarrow>
          if t = COMMA then Some (Scanning ExpValue st)
          else if t = RBRACKET then close_array st else None
      | ObjectFrame ps k # _ \<Rightarrow>
          if t = COMMA then Some (Scanning ExpKey st)
          else if t = RBRACE then close_object st else None
      | [] \<Rightarrow> None)"

fun steps :: "pstate \<Rightarrow> token list \<Rightarrow> pstate option" where
  "steps p [] = Some p"
| "steps p (t # ts) = (case step p t of None \<Rightarrow> None | Some p' \<Rightarrow> steps p' ts)"

definition parse_tokens :: "token list \<Rightarrow> json option" where
  \<comment> \<open>exactly one value; a token after it is the decoder's "Extra data"\<close>
  "parse_tokens ts =
     (case steps (Scanning ExpValue []) ts of
        Some (Finished v) \<Rightarrow> Some v
      | _ \<Rightarrow> None)"

definition json_loads :: "string \<Rightarrow> json option" where
  \<comment> \<open>\<open>None\<close> is JSONDecodeError\<close>
  "json_loads s = (case tokenize s of None \<Rightarrow> None | Some ts \<Rightarrow> parse_tokens ts)"

section \<open>The world the script runs in\<close>

text \<open>
  The exceptions that can end a run, by their Python classes. \<^verbatim>\<open>open(None)\<close> raises
  TypeError; a failed open raises a subclass of OSError; \<^verbatim>\<open>json.load\<close> raises
  JSONDecodeError, UnicodeDecodeError from \<^verbatim>\<open>f.read()\<close>, a plain ValueError for an
  integer literal over the digit limit, or RecursionError; \<^verbatim>\<open>print\<close> raises
  UnicodeEncodeError for text the stream cannot encode. All but RecursionError and
  TypeError are subclasses of ValueError or OSError. The script catches none of them.
\<close>

datatype os_error = FileNotFoundError | PermissionError | IsADirectoryError

datatype value_error =
  UnicodeDecodeError | JSONDecodeError | UnicodeEncodeError | IntegerStringLimit

datatype py_exception = TypeError | OSError os_error | ValueError value_error | RecursionError

text \<open>
  The script reads from outside: the process environment, the \<^verbatim>\<open>.env\<close> file that
  \<^verbatim>\<open>load_dotenv()\<close> locates, the file system at the path it opens, and the standard
  output it prints to.
  \<^item> \<open>environ\<close> is \<^verbatim>\<open>os.environ\<close> when the program starts.
  \<^item> A directory is the list of its components from the root. \<open>script_dir\<close> holds
    \<^verbatim>\<open>script.py\<close>, \<open>working_dir\<close> is \<^verbatim>\<open>os.getcwd()\<close>. \<open>starts_at_cwd\<close> says that
    the interpreter is interactive, traced by a debugger or frozen: the three cases
    in which \<^verbatim>\<open>find_dotenv()\<close> starts from the working directory.
  \<^item> \<open>dotenv_at d\<close> is \<open>None\<close> when directory \<open>d\<close> has no regular file \<^verbatim>\<open>.env\<close>.
    Otherwise it says what reading that file gives: the exception that opening or
    decoding it raises, or the items of \<^verbatim>\<open>DotEnv.dict()\<close>, the bindings parsed from
    it. A key written without \<^verbatim>\<open>=\<close> has the value \<open>None\<close>.
  \<^item> \<open>files\<close> gives what \<^verbatim>\<open>open(path, 'r')\<close> meets at a non-empty path. The content of a
    readable file is the text \<^verbatim>\<open>f.read()\<close> returns, or \<open>Undecodable\<close> when its bytes
    cannot be decoded.
  \<^item> \<open>max_str_digits\<close> is \<^verbatim>\<open>sys.get_int_max_str_digits()\<close> (4300 unless configured, 0
    for no limit). \<open>nesting_headroom\<close> is how many containers the interpreter's
    recursion check lets the decoder open inside the outermost one.
  \<^item> Standard output is a UTF-8 stream; \<open>stdout_surrogateescape\<close> says that its error
    handler is \<^verbatim>\<open>surrogateescape\<close> (as in the C locale) and not \<^verbatim>\<open>strict\<close>.
\<close>

datatype content = Undecodable | Text string

datatype file_status = NoSuchFile | NoPermission | IsDirectory | Readable content

datatype dotenv_read = Unreadable py_exception | Bindings "(string \<times> string option) list"

record world =
  environ :: "string \<rightharpoonup> string"
  script_dir :: "string list"
  working_dir :: "string list"
  starts_at_cwd :: bool
  dotenv_at :: "string list \<Rightarrow> dotenv_read option"
  files :: "string \<Rightarrow> file_status"
  max_str_digits :: nat
  nesting_headroom :: nat
  stdout_surrogateescape :: bool

text \<open>
  What a run does to the outside, in order. The probes by which \<^verbatim>\<open>find_dotenv()\<close>
  looks for a \<^verbatim>\<open>.env\<close> file read no file and are not recorded.
\<close>

datatype event =
    ReadDotenv
  | DotenvFailed py_exception
  | OpenFailed string os_error
  | Opened string
  | ReadAll string
  | Closed string
  | Printed string json
  | LabelPrinted string

record state =
  os_environ :: "string \<rightharpoonup> string"
  open_files :: "string list"
  trace :: "event list"

definition initial :: "world \<Rightarrow> state" where
  "initial w = \<lparr>os_environ = environ w, open_files = [], trace = []\<rparr>"

definition emit :: "event \<Rightarrow> state \<Rightarrow> state" where
  "emit ev s = s\<lparr>trace := trace s @ [ev]\<rparr>"

section \<open>The five statements\<close>

subsection \<open>load_dotenv\<close>

text \<open>
  \<^verbatim>\<open>load_dotenv()\<close> with no argument asks \<^verbatim>\<open>find_dotenv()\<close> for the file. Unless the
  interpreter is interactive, traced or frozen, the search starts at the directory
  of the calling script, not at the working directory, and walks up to the root;
  the first directory with a regular file \<^verbatim>\<open>.env\<close> wins.
\<close>

function walk_to_root :: "string list \<Rightarrow> string list list" where
  "walk_to_root [] = [[]]"
| "walk_to_root (c # cs) = (c # cs) # walk_to_root (butlast (c # cs))"
  by pat_completeness auto
termination
  by (relation "measure length") auto

definition find_dotenv :: "world \<Rightarrow> string list option" where
  "find_dotenv w =
     find (\<lambda>d. dotenv_at w d \<noteq> None)
       (walk_to_root (if starts_at_cwd w then working_dir w else script_dir w))"

text \<open>
  Current python-dotenv returns at once, reading nothing, when
  \<^verbatim>\<open>PYTHON_DOTENV_DISABLED\<close> is set to one of five words, compared after
  \<^verbatim>\<open>str.casefold()\<close>. On the bytes of a value, case folding that can end in one of
  those words lowers the ASCII letters and turns the long s (bytes C5 BF) into s.
\<close>

definition lower :: "char \<Rightarrow> char" where
  "lower c =
     (if (65::nat) \<le> of_char c \<and> of_char c \<le> (90::nat) then char_of (of_char c + (32::nat))
      else c)"

fun casefold :: "string \<Rightarrow> string" where
  "casefold [] = []"
| "casefold [a] = [lower a]"
| "casefold (a # b # cs) =
     (if a = CHR 0xC5 \<and> b = CHR 0xBF then CHR ''s'' # casefold cs
      else lower a # casefold (b # cs))"

definition load_dotenv_disabled :: "(string \<rightharpoonup> string) \<Rightarrow> bool" where
  "load_dotenv_disabled env =
     (case env ''PYTHON_DOTENV_DISABLED'' of
        None \<Rightarrow> False
      | Some v \<Rightarrow> casefold v \<in> set [''1'', ''true'', ''t'', ''yes'', ''y''])"

text \<open>
  With its defaults (\<^verbatim>\<open>override=False\<close>) \<^verbatim>\<open>load_dotenv()\<close> then runs
  \<^verbatim>\<open>set_as_environment_variables\<close>: a key already in \<^verbatim>\<open>os.environ\<close> is skipped, and a
  key with no value is not set. An exception from opening or decoding the file is
  not caught.
\<close>

fun set_as_environment_variables ::
  "(string \<times> string option) list \<Rightarrow> (string \<rightharpoonup> string) \<Rightarrow> (string \<rightharpoonup> string)" where
  "set_as_environment_variables [] env = env"
| "set_as_environment_variables ((k, v) # items) env =
     set_as_environment_variables items
       (if env k \<noteq> None then env
        else (case v of None \<Rightarrow> env | Some x \<Rightarrow> env(k \<mapsto> x)))"

definition read_dotenv :: "dotenv_read \<Rightarrow> state \<Rightarrow> (py_exception + unit) \<times> state" where
  "read_dotenv r s =
     (case r of
        Unreadable e \<Rightarrow> (Inl e, emit (DotenvFailed e) s)
      | Bindings items \<Rightarrow>
          (Inr (),
           emit ReadDotenv
             (s\<lparr>os_environ := set_as_environment_variables items (os_environ s)\<rparr>)))"

definition load_dotenv :: "world \<Rightarrow> state \<Rightarrow> (py_exception + unit) \<times> state" where
  "load_dotenv w s =
     (if load_dotenv_disabled (os_environ s) then (Inr (), s)
      else case find_dotenv w of
             None \<Rightarrow> (Inr (), s)
           | Some d \<Rightarrow>
               (case dotenv_at w d of
                  None \<Rightarrow> (Inr (), s)
                | Some r \<Rightarrow> read_dotenv r s))"

definition dotenv_file :: "world \<Rightarrow> dotenv_read option" where
  \<comment> \<open>the \<^verbatim>\<open>.env\<close> file that \<^verbatim>\<open>load_dotenv()\<close> reads in this world, if it reads one\<close>
  "dotenv_file w =
     (if load_dotenv_disabled (environ w) then None
      else case find_dotenv w of None \<Rightarrow> None | Some d \<Rightarrow> dotenv_at w d)"

subsection \<open>os.getenv, open, json.load, print\<close>

definition getenv :: "state \<Rightarrow> string \<Rightarrow> string option" where
  \<comment> \<open>\<^verbatim>\<open>os.getenv(key)\<close>: \<open>None\<close> for a key that is not set\<close>
  "getenv s key = os_environ s key"

definition lookup_path :: "world \<Rightarrow> string \<Rightarrow> file_status" where
  \<comment> \<open>the empty path names no file\<close>
  "lookup_path w p = (if p = [] then NoSuchFile else files w p)"

text \<open>
  \<^verbatim>\<open>open(file, 'r')\<close>. \<open>None\<close> is refused while the argument is converted, before the
  file system is asked. A file object is the path it was opened at and the content
  it will read.
\<close>

definition py_open ::
  "world \<Rightarrow> string option \<Rightarrow> state \<Rightarrow> (py_exception + string \<times> content) \<times> state" where
  "py_open w file s =
     (case file of
        None \<Rightarrow> (Inl TypeError, s)
      | Some p \<Rightarrow>
          (case lookup_path w p of
             NoSuchFile \<Rightarrow>
               (Inl (OSError FileNotFoundError), emit (OpenFailed p FileNotFoundError) s)
           | NoPermission \<Rightarrow>
               (Inl (OSError PermissionError), emit (OpenFailed p PermissionError) s)
           | IsDirectory \<Rightarrow>
               (Inl (OSError IsADirectoryError), emit (OpenFailed p IsADirectoryError) s)
           | Readable c \<Rightarrow>
               (Inr (p, c), emit (Opened p) (s\<lparr>open_files := p # open_files s\<rparr>))))"

definition close :: "string \<times> content \<Rightarrow> state \<Rightarrow> state" where
  "close f s = emit (Closed (fst f)) (s\<lparr>open_files := remove1 (fst f) (open_files s)\<rparr>)"

text \<open>
  The interpreter's limits on a document the grammar accepts. \<^verbatim>\<open>int()\<close> refuses a
  literal of more than \<^verbatim>\<open>max_str_digits\<close> digits (the check starts above 640 digits,
  and 0 switches it off); an integer literal has no leading zero, so its digits are
  those of its value. Each array or object the decoder enters costs one level of
  recursion; the outermost one always fits.
\<close>

function decimal_digits :: "nat \<Rightarrow> nat" where
  "decimal_digits n = (if n < 10 then 1 else Suc (decimal_digits (n div 10)))"
  by pat_completeness auto
termination
  by (relation "measure id") auto

declare decimal_digits.simps [simp del]

definition int_too_long :: "nat \<Rightarrow> int \<Rightarrow> bool" where
  "int_too_long m n =
     (0 < m \<and> m < decimal_digits (nat \<bar>n\<bar>) \<and> 640 < decimal_digits (nat \<bar>n\<bar>))"

fun token_int :: "token \<Rightarrow> int option" where
  "token_int (SCALAR (JInt n)) = Some n"
| "token_int t = None"

fun over_limit :: "nat \<Rightarrow> nat \<Rightarrow> nat \<Rightarrow> token list \<Rightarrow> py_exception option" where
  "over_limit m h d [] = None"
| "over_limit m h d (t # ts) =
     (if t = LBRACE \<or> t = LBRACKET then
        (if h < d then Some RecursionError else over_limit m h (Suc d) ts)
      else if t = RBRACE \<or> t = RBRACKET then over_limit m h (d - 1) ts
      else
        (case token_int t of
           None \<Rightarrow> over_limit m h d ts
         | Some n \<Rightarrow>
             if int_too_long m n then Some (ValueError IntegerStringLimit)
             else over_limit m h d ts))"

definition limit_error :: "world \<Rightarrow> string \<Rightarrow> py_exception option" where
  "limit_error w t =
     (case tokenize t of
        None \<Rightarrow> None
      | Some ts \<Rightarrow> over_limit (max_str_digits w) (nesting_headroom w) 0 ts)"

text \<open>
  \<^verbatim>\<open>json.load(fp)\<close> is \<^verbatim>\<open>json.loads(fp.read())\<close>. For text that is both outside the
  grammar and over a limit the decoder raises whichever it meets first; here the
  grammar is asked first.
\<close>

definition json_load ::
  "world \<Rightarrow> string \<times> content \<Rightarrow> state \<Rightarrow> (py_exception + json) \<times> state" where
  "json_load w fp s =
     (case snd fp of
        Undecodable \<Rightarrow> (Inl (ValueError UnicodeDecodeError), emit (ReadAll (fst fp)) s)
      | Text t \<Rightarrow>
          (case json_loads t of
             None \<Rightarrow> (Inl (ValueError JSONDecodeError), emit (ReadAll (fst fp)) s)
           | Some obj \<Rightarrow>
               (case limit_error w t of
                  Some e \<Rightarrow> (Inl e, emit (ReadAll (fst fp)) s)
                | None \<Rightarrow> (Inr obj, emit (ReadAll (fst fp)) s))))"

text \<open>
  The \<^verbatim>\<open>with\<close> statement: when \<^verbatim>\<open>open\<close> raises there is no file object and nothing
  to close; once it has returned, the file is closed when the body ends, whether it
  ends with a value or with an exception, and the exception goes on.
\<close>

definition with_open ::
  "world \<Rightarrow> string option \<Rightarrow>
   (string \<times> content \<Rightarrow> state \<Rightarrow> (py_exception + 'a) \<times> state) \<Rightarrow>
   state \<Rightarrow> (py_exception + 'a) \<times> state" where
  "with_open w file body s =
     (case py_open w file s of
        (Inl e, s1) \<Rightarrow> (Inl e, s1)
      | (Inr f, s1) \<Rightarrow> (case body f s1 of (r, s2) \<Rightarrow> (r, close f s2)))"

text \<open>
  \<^verbatim>\<open>print(label, obj)\<close> writes the label, a space, \<^verbatim>\<open>str(obj)\<close> and a newline, one
  write each. For a container or a scalar that is not a str, \<^verbatim>\<open>str\<close> is ASCII or
  escapes what cannot be printed, lone surrogates among it. A top-level str is
  written as it is: a lone surrogate in it (in the byte form used here, ED followed
  by A0 or more) cannot be encoded, except the range DC80 to DCFF (ED B2, ED B3)
  under \<^verbatim>\<open>surrogateescape\<close>. The write then raises UnicodeEncodeError; the label is
  already in the stream.
\<close>

fun unencodable :: "bool \<Rightarrow> string \<Rightarrow> bool" where
  "unencodable se (a # b # cs) =
     ((a = CHR 0xED \<and> (0xA0::nat) \<le> of_char b \<and> \<not> (se \<and> (b = CHR 0xB2 \<or> b = CHR 0xB3)))
      \<or> unencodable se (b # cs))"
| "unencodable se cs = False"

fun print_error :: "world \<Rightarrow> json \<Rightarrow> py_exception option" where
  "print_error w (JString s) =
     (if unencodable (stdout_surrogateescape w) s then Some (ValueError UnicodeEncodeError)
      else None)"
| "print_error w obj = None"

definition py_print :: "world \<Rightarrow> string \<Rightarrow> json \<Rightarrow> state \<Rightarrow> (py_exception + unit) \<times> state" where
  "py_print w label obj s =
     (case print_error w obj of
        Some e \<Rightarrow> (Inl e, emit (LabelPrinted label) s)
      | None \<Rightarrow> (Inr (), emit (Printed label obj) s))"

subsection \<open>The script\<close>

definition GOOGLE_APPLICATION_CREDENTIALS :: string where
  "GOOGLE_APPLICATION_CREDENTIALS = ''GOOGLE_APPLICATION_CREDENTIALS''"

definition credentials_path :: "world \<Rightarrow> string option" where
  \<comment> \<open>the value line 9 binds, when \<^verbatim>\<open>load_dotenv()\<close> has returned: the variable as
      \<^verbatim>\<open>load_dotenv()\<close> left it\<close>
  "credentials_path w =
     (case load_dotenv w (initial w) of
        (Inl e, s1) \<Rightarrow> None
      | (Inr u, s1) \<Rightarrow> getenv s1 GOOGLE_APPLICATION_CREDENTIALS)"

text \<open>
  The whole of \<^verbatim>\<open>script.py\<close>. The result is the exception that ends the run, or
  the value of \<^verbatim>\<open>google_credentials\<close> when the run reaches its end; the state holds
  what was done on the way.
\<close>

definition script :: "world \<Rightarrow> (py_exception + json) \<times> state" where
  "script w =
     (case load_dotenv w (initial w) of
        (Inl e, s1) \<Rightarrow> (Inl e, s1)
      | (Inr u, s1) \<Rightarrow>
          (let credentials_path = getenv s1 GOOGLE_APPLICATION_CREDENTIALS
           in case with_open w credentials_path (json_load w) s1 of
                (Inl e, s2) \<Rightarrow> (Inl e, s2)
              | (Inr google_credentials, s2) \<Rightarrow>
                  (case py_print w ''Credenciales de Google:'' google_credentials s2 of
                     (Inl e, s3) \<Rightarrow> (Inl e, s3)
                   | (Inr u', s3) \<Rightarrow> (Inr google_credentials, s3))))"

subsection \<open>Reading a run\<close>

text \<open>
  The specification names three failure conditions. The script raises Python's own
  exceptions; the classes that the three steps of the specification raise fall
  under its conditions, the others under none.
\<close>

datatype condition = MissingConfiguration | FileAccessError | MalformedDataError | Unclassified

fun condition_of :: "py_exception \<Rightarrow> condition" where
  "condition_of TypeError = MissingConfiguration"
| "condition_of (OSError e) = FileAccessError"
| "condition_of (ValueError UnicodeDecodeError) = MalformedDataError"
| "condition_of (ValueError JSONDecodeError) = MalformedDataError"
| "condition_of (ValueError UnicodeEncodeError) = Unclassified"
| "condition_of (ValueError IntegerStringLimit) = Unclassified"
| "condition_of RecursionError = Unclassified"

fun is_file_access :: "event \<Rightarrow> bool" where
  "is_file_access (Printed l d) = False"
| "is_file_access (LabelPrinted l) = False"
| "is_file_access ev = True"

fun printed :: "event list \<Rightarrow> json list" where
  "printed [] = []"
| "printed (Printed l d # evs) = d # printed evs"
| "printed (ev # evs) = printed evs"

fun unreleased :: "event list \<Rightarrow> string list \<Rightarrow> string list" where
  \<comment> \<open>the files still open after the events, given those open before\<close>
  "unreleased [] hs = hs"
| "unreleased (Opened p # evs) hs = unreleased evs (p # hs)"
| "unreleased (Closed p # evs) hs = unreleased evs (remove1 p hs)"
| "unreleased (ev # evs) hs = unreleased evs hs"


subsection \<open>Sample worlds\<close>

definition app_world ::
  "(string \<rightharpoonup> string) \<Rightarrow> (string list \<Rightarrow> dotenv_read option) \<Rightarrow> (string \<Rightarrow> file_status) \<Rightarrow> world" where
  \<comment> \<open>\<^verbatim>\<open>python script.py\<close> run inside \<^verbatim>\<open>/opt/app\<close>, where the script is\<close>
  "app_world env dotenvs fs =
     \<lparr>environ = env, script_dir = [''opt'', ''app''], working_dir = [''opt'', ''app''],
      starts_at_cwd = False, dotenv_at = dotenvs, files = fs,
      max_str_digits = 4300, nesting_headroom = 900, stdout_surrogateescape = False\<rparr>"

definition dotenv_in_app :: "(string \<times> string option) list \<Rightarrow> string list \<Rightarrow> dotenv_read option" where
  "dotenv_in_app items d = (if d = [''opt'', ''app''] then Some (Bindings items) else None)"

definition key_file :: "file_status \<Rightarrow> file_status \<Rightarrow> string \<Rightarrow> file_status" where
  "key_file key other p =
     (if p = ''/srv/key.json'' then key
      else if p = ''/tmp/other.json'' then other
      else NoSuchFile)"

definition dotenv_world :: world where
  \<comment> \<open>the variable is not in the environment; the \<^verbatim>\<open>.env\<close> file gives it\<close>
  "dotenv_world =
     app_world Map.empty
       (dotenv_in_app [(GOOGLE_APPLICATION_CREDENTIALS, Some ''/srv/key.json'')])
       (key_file (Readable (Text ''{}'')) NoSuchFile)"

definition bare_world :: world where
  \<comment> \<open>the variable is given nowhere; the \<^verbatim>\<open>.env\<close> file sets something else\<close>
  "bare_world = app_world Map.empty (dotenv_in_app [(''DEBUG'', Some ''1'')]) (\<lambda>p. NoSuchFile)"

definition empty_path_world :: world where
  \<comment> \<open>the variable is set to the empty string; there is no \<^verbatim>\<open>.env\<close> file\<close>
  "empty_path_world =
     app_world [GOOGLE_APPLICATION_CREDENTIALS \<mapsto> []] (\<lambda>d. None) (\<lambda>p. NoSuchFile)"

definition key_world :: "string \<Rightarrow> file_status \<Rightarrow> file_status \<Rightarrow> world" where
  \<comment> \<open>the variable is set in the environment and, differently, in the \<^verbatim>\<open>.env\<close> file\<close>
  "key_world v key other =
     app_world [GOOGLE_APPLICATION_CREDENTIALS \<mapsto> v]
       (dotenv_in_app [(GOOGLE_APPLICATION_CREDENTIALS, Some ''/tmp/other.json'')])
       (key_file key other)"

definition cwd_world :: world where
  \<comment> \<open>\<^verbatim>\<open>python /opt/app/script.py\<close> run inside \<^verbatim>\<open>/home/user\<close>, which has a \<^verbatim>\<open>.env\<close>
      file that gives the variable; no \<^verbatim>\<open>.env\<close> in \<^verbatim>\<open>/opt/app\<close>, \<^verbatim>\<open>/opt\<close> or \<^verbatim>\<open>/\<close>\<close>
  "cwd_world =
     (app_world Map.empty
        (\<lambda>d. if d = [''home'', ''user'']
             then Some (Bindings [(GOOGLE_APPLICATION_CREDENTIALS, Some ''/srv/key.json'')])
             else None)
        (key_file (Readable (Text ''{}'')) NoSuchFile))
     \<lparr>working_dir := [''home'', ''user'']\<rparr>"

definition disabled_world :: world where
  \<comment> \<open>as \<open>dotenv_world\<close>, with \<^verbatim>\<open>PYTHON_DOTENV_DISABLED=Yes\<close> in the environment\<close>
  "disabled_world =
     app_world [''PYTHON_DOTENV_DISABLED'' \<mapsto> ''Yes'']
       (dotenv_in_app [(GOOGLE_APPLICATION_CREDENTIALS, Some ''/srv/key.json'')])
       (key_file (Readable (Text ''{}'')) NoSuchFile)"

section \<open>Facts about the parts\<close>

lemmas json_eval = json_loads_def is_ws_def parse_tokens_def dict_of_pairs_def


lemma json_loads_empty_object: "json_loads ''{}'' = Some (JObject [])"
  by (simp add: json_eval)

lemma json_loads_sample:
  \<open>json_loads ''{"type": "service_account", "project_id": "x"}'' =
     Some (JObject [(''type'', JString ''service_account''), (''project_id'', JString ''x'')])\<close>
  by (simp add: json_eval)







lemma set_as_environment_variables_keeps:
  "env k = Some v \<Longrightarrow> set_as_environment_variables items env k = Some v"
proof (induction items env rule: set_as_environment_variables.induct)
  case (1 env)
  then show ?case by simp
next
  case (2 k' x items env)
  let ?env' = "if env k' \<noteq> None then env
               else (case x of None \<Rightarrow> env | Some y \<Rightarrow> env(k' \<mapsto> y))"
  from "2.prems" have "?env' k = Some v"
    by (auto split: option.splits)
  then have "set_as_environment_variables items ?env' k = Some v"
    by (rule "2.IH")
  then show ?case by simp
qed

lemma set_as_environment_variables_adds:
  "env k = None \<Longrightarrow> map_of items k = Some (Some p) \<Longrightarrow>
   set_as_environment_variables items env k = Some p"
proof (induction items env rule: set_as_environment_variables.induct)
  case (1 env)
  then show ?case by simp
next
  case (2 k' v items env)
  show ?case
  proof (cases "k' = k")
    case True
    with "2.prems" have "v = Some p" by simp
    with True "2.prems" show ?thesis
      by (simp add: set_as_environment_variables_keeps)
  next
    case False
    with "2.prems" "2.IH" show ?thesis
      by (auto split: option.splits)
  qed
qed

lemma set_as_environment_variables_absent:
  "env k = None \<Longrightarrow> \<forall>v. (k, Some v) \<notin> set items \<Longrightarrow>
   set_as_environment_variables items env k = None"
proof (induction items env rule: set_as_environment_variables.induct)
  case (1 env)
  then show ?case by simp
next
  case (2 k' x items env)
  let ?env' = "if env k' \<noteq> None then env
               else (case x of None \<Rightarrow> env | Some y \<Rightarrow> env(k' \<mapsto> y))"
  from "2.prems" have "?env' k = None"
    by (auto split: option.splits)
  moreover from "2.prems" have "\<forall>v. (k, Some v) \<notin> set items" by simp
  ultimately have "set_as_environment_variables items ?env' k = None"
    by (rule "2.IH")
  then show ?case by simp
qed

text \<open>What \<^verbatim>\<open>load_dotenv()\<close> does at the start of a run, by the file it reads.\<close>

lemma load_dotenv_initial:
  "load_dotenv w (initial w) =
     (case dotenv_file w of None \<Rightarrow> (Inr (), initial w) | Some r \<Rightarrow> read_dotenv r (initial w))"
  by (simp add: load_dotenv_def dotenv_file_def initial_def split: option.splits)

lemma load_dotenv_none:
  "dotenv_file w = None \<Longrightarrow> load_dotenv w (initial w) = (Inr (), initial w)"
  by (simp add: load_dotenv_initial)

lemma load_dotenv_bindings:
  "dotenv_file w = Some (Bindings items) \<Longrightarrow>
   load_dotenv w (initial w) =
     (Inr (), \<lparr>os_environ = set_as_environment_variables items (environ w),
               open_files = [], trace = [ReadDotenv]\<rparr>)"
  unfolding load_dotenv_initial by (simp add: read_dotenv_def initial_def emit_def)

lemma load_dotenv_unreadable:
  "dotenv_file w = Some (Unreadable e) \<Longrightarrow>
   load_dotenv w (initial w) =
     (Inl e, \<lparr>os_environ = environ w, open_files = [], trace = [DotenvFailed e]\<rparr>)"
  unfolding load_dotenv_initial by (simp add: read_dotenv_def initial_def emit_def)

lemma load_dotenv_returns:
  assumes "\<forall>e. dotenv_file w \<noteq> Some (Unreadable e)"
  shows "fst (load_dotenv w (initial w)) = Inr ()"
proof (cases "dotenv_file w")
  case None
  then show ?thesis by (simp add: load_dotenv_none)
next
  case (Some r)
  with assms obtain items where "r = Bindings items" by (cases r) auto
  with Some show ?thesis by (simp add: load_dotenv_bindings)
qed

lemma load_dotenv_trace:
  "trace (snd (load_dotenv w (initial w))) =
     (case dotenv_file w of
        None \<Rightarrow> []
      | Some (Unreadable e) \<Rightarrow> [DotenvFailed e]
      | Some (Bindings items) \<Rightarrow> [ReadDotenv])"
  unfolding load_dotenv_initial
  by (simp add: read_dotenv_def initial_def emit_def split: option.splits dotenv_read.splits)

lemma load_dotenv_open_files: "open_files (snd (load_dotenv w (initial w))) = []"
  unfolding load_dotenv_initial
  by (simp add: read_dotenv_def initial_def emit_def split: option.splits dotenv_read.splits)

lemma load_dotenv_environ:
  "os_environ (snd (load_dotenv w (initial w))) =
     (case dotenv_file w of
        Some (Bindings items) \<Rightarrow> set_as_environment_variables items (environ w)
      | _ \<Rightarrow> environ w)"
  unfolding load_dotenv_initial
  by (simp add: read_dotenv_def initial_def emit_def split: option.splits dotenv_read.splits)

lemma credentials_path_returns:
  assumes "fst (load_dotenv w (initial w)) = Inr ()"
  shows "credentials_path w =
    os_environ (snd (load_dotenv w (initial w))) GOOGLE_APPLICATION_CREDENTIALS"
  using assms by (cases "load_dotenv w (initial w)") (simp add: credentials_path_def getenv_def)

lemma credentials_path_SomeD:
  assumes "credentials_path w = Some p"
  shows "fst (load_dotenv w (initial w)) = Inr ()"
    and "getenv (snd (load_dotenv w (initial w))) GOOGLE_APPLICATION_CREDENTIALS = Some p"
  using assms
  by (cases "load_dotenv w (initial w)"; cases "fst (load_dotenv w (initial w))";
      simp add: credentials_path_def)+

lemma credentials_path_environ:
  assumes "environ w GOOGLE_APPLICATION_CREDENTIALS = Some q"
    and "\<forall>e. dotenv_file w \<noteq> Some (Unreadable e)"
  shows "credentials_path w = Some q"
proof -
  from assms(2) have "fst (load_dotenv w (initial w)) = Inr ()" by (rule load_dotenv_returns)
  then have "credentials_path w =
      os_environ (snd (load_dotenv w (initial w))) GOOGLE_APPLICATION_CREDENTIALS"
    by (rule credentials_path_returns)
  with assms(1) show ?thesis
    by (simp add: load_dotenv_environ set_as_environment_variables_keeps
        split: option.splits dotenv_read.splits)
qed

lemma credentials_path_dotenv:
  assumes "environ w GOOGLE_APPLICATION_CREDENTIALS = None"
    and "dotenv_file w = Some (Bindings items)"
    and "map_of items GOOGLE_APPLICATION_CREDENTIALS = Some (Some p)"
  shows "credentials_path w = Some p"
  using assms
  by (simp add: credentials_path_def load_dotenv_bindings getenv_def
      set_as_environment_variables_adds)

lemma credentials_path_unset:
  assumes "environ w GOOGLE_APPLICATION_CREDENTIALS = None"
    and "\<forall>items v. dotenv_file w = Some (Bindings items) \<longrightarrow>
           (GOOGLE_APPLICATION_CREDENTIALS, Some v) \<notin> set items"
  shows "os_environ (snd (load_dotenv w (initial w))) GOOGLE_APPLICATION_CREDENTIALS = None"
  using assms
  by (simp add: load_dotenv_environ set_as_environment_variables_absent
      split: option.splits dotenv_read.splits)

text \<open>The run, path by path.\<close>

lemma script_dotenv_failed:
  "dotenv_file w = Some (Unreadable e) \<Longrightarrow>
   script w = (Inl e, \<lparr>os_environ = environ w, open_files = [], trace = [DotenvFailed e]\<rparr>)"
  by (simp add: script_def load_dotenv_unreadable)

lemma script_returns:
  assumes "fst (load_dotenv w (initial w)) = Inr ()"
  shows "script w =
    (let s1 = snd (load_dotenv w (initial w))
     in case with_open w (getenv s1 GOOGLE_APPLICATION_CREDENTIALS) (json_load w) s1 of
          (Inl e, s2) \<Rightarrow> (Inl e, s2)
        | (Inr d, s2) \<Rightarrow>
            (case py_print w ''Credenciales de Google:'' d s2 of
               (Inl e, s3) \<Rightarrow> (Inl e, s3)
             | (Inr u, s3) \<Rightarrow> (Inr d, s3)))"
  using assms by (cases "load_dotenv w (initial w)") (simp add: script_def)

lemma script_unset:
  assumes "fst (load_dotenv w (initial w)) = Inr ()"
    and "os_environ (snd (load_dotenv w (initial w))) GOOGLE_APPLICATION_CREDENTIALS = None"
  shows "script w = (Inl TypeError, snd (load_dotenv w (initial w)))"
  using assms(2)
  by (simp add: script_returns [OF assms(1)] getenv_def with_open_def py_open_def)

lemma script_open_failed:
  assumes "credentials_path w = Some p" and "\<forall>c. lookup_path w p \<noteq> Readable c"
  shows "\<exists>e. script w =
             (Inl (OSError e), emit (OpenFailed p e) (snd (load_dotenv w (initial w)))) \<and>
           (lookup_path w p = NoSuchFile \<longrightarrow> e = FileNotFoundError) \<and>
           (lookup_path w p = NoPermission \<longrightarrow> e = PermissionError)"
proof -
  note r = credentials_path_SomeD [OF assms(1)]
  from assms(2) r(2) show ?thesis
    by (cases "lookup_path w p")
       (simp_all add: script_returns [OF r(1)] with_open_def py_open_def)
qed

lemma script_opened:
  assumes "credentials_path w = Some p" and "lookup_path w p = Readable c"
  shows "script w =
    (let s1 = snd (load_dotenv w (initial w));
         s2 = emit (Opened p) (s1\<lparr>open_files := p # open_files s1\<rparr>)
     in case json_load w (p, c) s2 of
          (Inl e, s3) \<Rightarrow> (Inl e, close (p, c) s3)
        | (Inr d, s3) \<Rightarrow>
            (case py_print w ''Credenciales de Google:'' d (close (p, c) s3) of
               (Inl e, s4) \<Rightarrow> (Inl e, s4)
             | (Inr u, s4) \<Rightarrow> (Inr d, s4)))"
proof -
  note r = credentials_path_SomeD [OF assms(1)]
  from assms(2) r(2) show ?thesis
    by (simp add: script_returns [OF r(1)] with_open_def py_open_def Let_def
        split: prod.splits sum.splits)
qed

lemma script_parsed:
  assumes "credentials_path w = Some p" and "lookup_path w p = Readable (Text t)"
    and "json_loads t = Some d" and "limit_error w t = None" and "print_error w d = None"
  shows "script w =
    (Inr d, (snd (load_dotenv w (initial w)))
       \<lparr>open_files := [],
        trace := trace (snd (load_dotenv w (initial w))) @
          [Opened p, ReadAll p, Closed p, Printed ''Credenciales de Google:'' d]\<rparr>)"
  using assms(3,4,5)
  by (simp add: script_opened [OF assms(1,2)] json_load_def py_print_def close_def emit_def
      load_dotenv_open_files Let_def)

lemma script_print_failed:
  assumes "credentials_path w = Some p" and "lookup_path w p = Readable (Text t)"
    and "json_loads t = Some d" and "limit_error w t = None" and "print_error w d = Some e"
  shows "script w =
    (Inl e, (snd (load_dotenv w (initial w)))
       \<lparr>open_files := [],
        trace := trace (snd (load_dotenv w (initial w))) @
          [Opened p, ReadAll p, Closed p, LabelPrinted ''Credenciales de Google:'']\<rparr>)"
  using assms(3,4,5)
  by (simp add: script_opened [OF assms(1,2)] json_load_def py_print_def close_def emit_def
      load_dotenv_open_files Let_def)

lemma script_over_limit:
  assumes "credentials_path w = Some p" and "lookup_path w p = Readable (Text t)"
    and "json_loads t = Some d" and "limit_error w t = Some e"
  shows "script w =
    (Inl e, (snd (load_dotenv w (initial w)))
       \<lparr>open_files := [],
        trace := trace (snd (load_dotenv w (initial w))) @ [Opened p, ReadAll p, Closed p]\<rparr>)"
  using assms(3,4)
  by (simp add: script_opened [OF assms(1,2)] json_load_def close_def emit_def
      load_dotenv_open_files Let_def)

lemma script_rejected:
  assumes "credentials_path w = Some p" and "lookup_path w p = Readable (Text t)"
    and "json_loads t = None"
  shows "script w =
    (Inl (ValueError JSONDecodeError), (snd (load_dotenv w (initial w)))
       \<lparr>open_files := [],
        trace := trace (snd (load_dotenv w (initial w))) @ [Opened p, ReadAll p, Closed p]\<rparr>)"
  using assms(3)
  by (simp add: script_opened [OF assms(1,2)] json_load_def close_def emit_def
      load_dotenv_open_files Let_def)

lemma script_undecodable:
  assumes "credentials_path w = Some p" and "lookup_path w p = Readable Undecodable"
  shows "script w =
    (Inl (ValueError UnicodeDecodeError), (snd (load_dotenv w (initial w)))
       \<lparr>open_files := [],
        trace := trace (snd (load_dotenv w (initial w))) @ [Opened p, ReadAll p, Closed p]\<rparr>)"
  by (simp add: script_opened [OF assms] json_load_def close_def emit_def
      load_dotenv_open_files Let_def)

lemma unreleased_append: "unreleased (xs @ ys) hs = unreleased ys (unreleased xs hs)"
  by (induction xs hs rule: unreleased.induct) simp_all

lemma unreleased_load_dotenv: "unreleased (trace (snd (load_dotenv w (initial w)))) [] = []"
  by (simp add: load_dotenv_trace split: option.splits dotenv_read.splits)

lemma printed_append: "printed (xs @ ys) = printed xs @ printed ys"
  by (induction xs rule: printed.induct) simp_all

lemma printed_load_dotenv: "printed (trace (snd (load_dotenv w (initial w)))) = []"
  by (simp add: load_dotenv_trace split: option.splits dotenv_read.splits)

text \<open>Evaluating the sample worlds.\<close>

lemmas world_eval = app_world_def dotenv_in_app_def key_file_def dotenv_file_def
  find_dotenv_def load_dotenv_disabled_def lookup_path_def GOOGLE_APPLICATION_CREDENTIALS_def

lemma dotenv_file_samples:
  "dotenv_file dotenv_world =
     Some (Bindings [(GOOGLE_APPLICATION_CREDENTIALS, Some ''/srv/key.json'')])"
  "dotenv_file bare_world = Some (Bindings [(''DEBUG'', Some ''1'')])"
  "dotenv_file empty_path_world = None"
  "dotenv_file (key_world v key other) =
     Some (Bindings [(GOOGLE_APPLICATION_CREDENTIALS, Some ''/tmp/other.json'')])"
  "dotenv_file cwd_world = None"
  "dotenv_file disabled_world = None"
  by (simp_all add: dotenv_world_def bare_world_def empty_path_world_def key_world_def
      cwd_world_def disabled_world_def world_eval lower_def char_of_def bit_numeral_iff
      bit_iff_odd)

lemma credentials_path_key_world:
  "credentials_path (key_world v key other) = Some v"
proof -
  have "environ (key_world v key other) GOOGLE_APPLICATION_CREDENTIALS = Some v"
    by (simp add: key_world_def app_world_def)
  then show ?thesis
    by (rule credentials_path_environ) (simp add: dotenv_file_samples)
qed

lemma credentials_path_dotenv_world:
  "credentials_path dotenv_world = Some ''/srv/key.json''"
proof -
  have "environ dotenv_world GOOGLE_APPLICATION_CREDENTIALS = None"
    by (simp add: dotenv_world_def app_world_def)
  then show ?thesis
    by (rule credentials_path_dotenv [OF _ dotenv_file_samples(1)]) simp
qed

lemma lookup_key_world:
  "lookup_path (key_world v key other) ''/srv/key.json'' = key"
  "lookup_path dotenv_world ''/srv/key.json'' = Readable (Text ''{}'')"
  by (simp_all add: key_world_def dotenv_world_def world_eval)


lemma limit_error_empty_object: "limit_error w ''{}'' = None"
  by (simp add: limit_error_def is_ws_def)

lemma limit_error_sample:
  \<open>limit_error w ''{"type": "service_account", "project_id": "x"}'' = None\<close>
  by (simp add: limit_error_def is_ws_def)











lemma print_error_not_string: "\<forall>s. v \<noteq> JString s \<Longrightarrow> print_error w v = None"
  by (cases v) simp_all

text \<open>The limits at work: a power of ten has one digit more than its exponent.\<close>

lemma decimal_digits_power: "decimal_digits (10 ^ k) = Suc k"
proof (induction k)
  case 0
  show ?case by (simp add: decimal_digits.simps)
next
  case (Suc k)
  have "\<not> (10::nat) ^ Suc k < 10" by simp
  then have "decimal_digits (10 ^ Suc k) = Suc (decimal_digits (10 ^ Suc k div 10))"
    by (subst decimal_digits.simps) simp
  with Suc show ?case by simp
qed

lemma int_too_long_power:
  "0 < m \<Longrightarrow> 640 \<le> m \<Longrightarrow> int_too_long m (10 ^ m)"
  by (simp add: int_too_long_def nat_power_eq decimal_digits_power)

lemma limit_error_nesting:
  "limit_error ((key_world v key other)\<lparr>nesting_headroom := 1\<rparr>) ''[[[]]]'' = Some RecursionError"
  "limit_error ((key_world v key other)\<lparr>nesting_headroom := 1\<rparr>) ''[[]]'' = None"
  by (simp_all add: limit_error_def is_ws_def)

section \<open>The claims\<close>

text \<open>
  C1, as amended. When the variable is still unset after \<^verbatim>\<open>load_dotenv()\<close> has run
  (it is absent from the process environment and the \<^verbatim>\<open>.env\<close> file, read without
  error, gives it no value), the run ends with the TypeError that \<^verbatim>\<open>open(None)\<close>
  raises, which is the MissingConfiguration condition. No open is attempted on any
  path and no file is left open: the only file access of the run is
  \<^verbatim>\<open>load_dotenv()\<close> reading the \<^verbatim>\<open>.env\<close> file, when it reads one.
\<close>

theorem unset_fails_before_open:
  assumes "environ w GOOGLE_APPLICATION_CREDENTIALS = None"
    and "\<forall>items v. dotenv_file w = Some (Bindings items) \<longrightarrow>
           (GOOGLE_APPLICATION_CREDENTIALS, Some v) \<notin> set items"
    and "\<forall>e. dotenv_file w \<noteq> Some (Unreadable e)"
  shows "fst (script w) = Inl TypeError \<and>
         condition_of TypeError = MissingConfiguration \<and>
         trace (snd (script w)) = (case dotenv_file w of None \<Rightarrow> [] | Some items \<Rightarrow> [ReadDotenv]) \<and>
         open_files (snd (script w)) = []"
proof -
  from assms(3) have r: "fst (load_dotenv w (initial w)) = Inr ()"
    by (rule load_dotenv_returns)
  from assms(1,2)
  have "os_environ (snd (load_dotenv w (initial w))) GOOGLE_APPLICATION_CREDENTIALS = None"
    by (rule credentials_path_unset)
  from script_unset [OF r this] assms(3) show ?thesis
    by (simp add: load_dotenv_trace load_dotenv_open_files
        split: option.splits dotenv_read.splits)
qed

theorem unset_fails_before_open_witness:
  "fst (script bare_world) = Inl TypeError \<and>
   trace (snd (script bare_world)) = [ReadDotenv] \<and>
   open_files (snd (script bare_world)) = []"
proof -
  have e: "environ bare_world GOOGLE_APPLICATION_CREDENTIALS = None"
    by (simp add: bare_world_def app_world_def)
  have d: "\<forall>items v. dotenv_file bare_world = Some (Bindings items) \<longrightarrow>
             (GOOGLE_APPLICATION_CREDENTIALS, Some v) \<notin> set items"
    by (simp add: dotenv_file_samples GOOGLE_APPLICATION_CREDENTIALS_def)
  have u: "\<forall>e. dotenv_file bare_world \<noteq> Some (Unreadable e)"
    by (simp add: dotenv_file_samples)
  from unset_fails_before_open [OF e d u] show ?thesis
    by (simp add: dotenv_file_samples)
qed

text \<open>
  C1 as it is written fails twice. In \<open>dotenv_world\<close> the variable is unset in the
  environment the program is started with, yet the run succeeds, because the
  \<^verbatim>\<open>.env\<close> file supplies the path. In \<open>bare_world\<close> the run does fail with TypeError,
  but after \<^verbatim>\<open>load_dotenv()\<close> has read the \<^verbatim>\<open>.env\<close> file: file I/O has occurred.
\<close>

theorem unset_in_environ_counterexample:
  "environ dotenv_world GOOGLE_APPLICATION_CREDENTIALS = None \<and>
   fst (script dotenv_world) = Inr (JObject []) \<and>
   trace (snd (script dotenv_world)) =
     [ReadDotenv, Opened ''/srv/key.json'', ReadAll ''/srv/key.json'', Closed ''/srv/key.json'',
      Printed ''Credenciales de Google:'' (JObject [])] \<and>
   environ bare_world GOOGLE_APPLICATION_CREDENTIALS = None \<and>
   fst (script bare_world) = Inl TypeError \<and>
   filter is_file_access (trace (snd (script bare_world))) = [ReadDotenv]"
proof -
  have pe: "print_error dotenv_world (JObject []) = None" by simp
  note run = script_parsed [OF credentials_path_dotenv_world lookup_key_world(2)
      json_loads_empty_object limit_error_empty_object pe]
  have e: "environ bare_world GOOGLE_APPLICATION_CREDENTIALS = None"
    by (simp add: bare_world_def app_world_def)
  have r: "fst (load_dotenv bare_world (initial bare_world)) = Inr ()"
    by (rule load_dotenv_returns) (simp add: dotenv_file_samples)
  have "os_environ (snd (load_dotenv bare_world (initial bare_world)))
      GOOGLE_APPLICATION_CREDENTIALS = None"
    by (rule credentials_path_unset [OF e])
       (simp add: dotenv_file_samples GOOGLE_APPLICATION_CREDENTIALS_def)
  note bare = script_unset [OF r this]
  have "environ dotenv_world GOOGLE_APPLICATION_CREDENTIALS = None"
    by (simp add: dotenv_world_def app_world_def)
  with e show ?thesis
    by (simp add: run bare load_dotenv_trace dotenv_file_samples)
qed




text \<open>
  C3. When the path read from the variable cannot be opened (no such file, no
  permission, or a directory; the empty path among them), the run ends with an
  OSError, the FileAccessError condition: FileNotFoundError for a missing file,
  PermissionError for an unreadable one. The failed open is the last thing the run
  does: nothing is read, parsed or printed.
\<close>

theorem unopenable_path_fails:
  assumes "credentials_path w = Some p"
    and "\<forall>c. lookup_path w p \<noteq> Readable c"
  shows "\<exists>e. fst (script w) = Inl (OSError e) \<and>
             condition_of (OSError e) = FileAccessError \<and>
             (lookup_path w p = NoSuchFile \<longrightarrow> e = FileNotFoundError) \<and>
             (lookup_path w p = NoPermission \<longrightarrow> e = PermissionError) \<and>
             trace (snd (script w)) =
               trace (snd (load_dotenv w (initial w))) @ [OpenFailed p e] \<and>
             (\<forall>q. ReadAll q \<notin> set (trace (snd (script w)))) \<and>
             printed (trace (snd (script w))) = []"
proof -
  from script_open_failed [OF assms] obtain e where
    s: "script w = (Inl (OSError e), emit (OpenFailed p e) (snd (load_dotenv w (initial w))))"
    and n: "lookup_path w p = NoSuchFile \<longrightarrow> e = FileNotFoundError"
    and d: "lookup_path w p = NoPermission \<longrightarrow> e = PermissionError"
    by blast
  have "\<forall>q. ReadAll q \<notin> set (trace (snd (load_dotenv w (initial w))))"
    by (simp add: load_dotenv_trace split: option.splits dotenv_read.splits)
  with s n d show ?thesis
    by (simp add: emit_def printed_append printed_load_dotenv)
qed

theorem unopenable_path_fails_witness:
  "fst (script (key_world ''/srv/key.json'' NoSuchFile (Readable (Text ''[]'')))) =
     Inl (OSError FileNotFoundError) \<and>
   trace (snd (script (key_world ''/srv/key.json'' NoSuchFile (Readable (Text ''[]''))))) =
     [ReadDotenv, OpenFailed ''/srv/key.json'' FileNotFoundError]"
proof -
  let ?w = "key_world ''/srv/key.json'' NoSuchFile (Readable (Text ''[]''))"
  have f: "lookup_path ?w ''/srv/key.json'' = NoSuchFile"
    by (rule lookup_key_world)
  then have n: "\<forall>c. lookup_path ?w ''/srv/key.json'' \<noteq> Readable c" by simp
  have t: "trace (snd (load_dotenv ?w (initial ?w))) = [ReadDotenv]"
    by (simp add: load_dotenv_trace dotenv_file_samples)
  from unopenable_path_fails [OF credentials_path_key_world n] f t show ?thesis by auto
qed



text \<open>
  C5, as amended. When the variable is set to the empty string, that value wins over
  anything in the \<^verbatim>\<open>.env\<close> file; once \<^verbatim>\<open>load_dotenv()\<close> has returned, the script asks
  to open the empty path, and the run ends with FileNotFoundError, an OSError: the
  FileAccessError condition, the same as for any other path that names no file.
\<close>

theorem empty_path_is_file_access_error:
  assumes "environ w GOOGLE_APPLICATION_CREDENTIALS = Some []"
    and "\<forall>e. dotenv_file w \<noteq> Some (Unreadable e)"
  shows "fst (script w) = Inl (OSError FileNotFoundError) \<and>
         condition_of (OSError FileNotFoundError) = FileAccessError \<and>
         trace (snd (script w)) =
           trace (snd (load_dotenv w (initial w))) @ [OpenFailed [] FileNotFoundError]"
proof -
  from assms have p: "credentials_path w = Some []" by (rule credentials_path_environ)
  have l: "lookup_path w [] = NoSuchFile" by (simp add: lookup_path_def)
  then have "\<forall>c. lookup_path w [] \<noteq> Readable c" by simp
  from script_open_failed [OF p this] obtain e where
    "script w = (Inl (OSError e), emit (OpenFailed [] e) (snd (load_dotenv w (initial w))))"
    and "lookup_path w [] = NoSuchFile \<longrightarrow> e = FileNotFoundError"
    by blast
  with l show ?thesis by (simp add: emit_def)
qed

theorem empty_path_is_file_access_error_witness:
  "fst (script (key_world [] (Readable (Text ''{}'')) (Readable (Text ''[]'')))) =
     Inl (OSError FileNotFoundError) \<and>
   trace (snd (script (key_world [] (Readable (Text ''{}'')) (Readable (Text ''[]''))))) =
     [ReadDotenv, OpenFailed [] FileNotFoundError]"
proof -
  let ?w = "key_world [] (Readable (Text ''{}'')) (Readable (Text ''[]''))"
  have e: "environ ?w GOOGLE_APPLICATION_CREDENTIALS = Some []"
    by (simp add: key_world_def app_world_def)
  have u: "\<forall>e. dotenv_file ?w \<noteq> Some (Unreadable e)"
    by (simp add: dotenv_file_samples)
  have t: "trace (snd (load_dotenv ?w (initial ?w))) = [ReadDotenv]"
    by (simp add: load_dotenv_trace dotenv_file_samples)
  from empty_path_is_file_access_error [OF e u] t show ?thesis by simp
qed

text \<open>
  C5 as it is written fails in \<open>empty_path_world\<close>: the variable is set and empty, and
  the run ends with FileNotFoundError after a failed open, which is the
  FileAccessError condition and not MissingConfiguration.
\<close>

theorem empty_path_counterexample:
  "environ empty_path_world GOOGLE_APPLICATION_CREDENTIALS = Some [] \<and>
   fst (script empty_path_world) = Inl (OSError FileNotFoundError) \<and>
   condition_of (OSError FileNotFoundError) \<noteq> MissingConfiguration \<and>
   trace (snd (script empty_path_world)) = [OpenFailed [] FileNotFoundError]"
proof -
  have e: "environ empty_path_world GOOGLE_APPLICATION_CREDENTIALS = Some []"
    by (simp add: empty_path_world_def app_world_def)
  have u: "\<forall>e. dotenv_file empty_path_world \<noteq> Some (Unreadable e)"
    by (simp add: dotenv_file_samples)
  from e u have p: "credentials_path empty_path_world = Some []"
    by (rule credentials_path_environ)
  have l: "lookup_path empty_path_world [] = NoSuchFile" by (simp add: lookup_path_def)
  then have "\<forall>c. lookup_path empty_path_world [] \<noteq> Readable c" by simp
  from script_open_failed [OF p this] l e show ?thesis
    by (auto simp add: emit_def load_dotenv_trace dotenv_file_samples)
qed

text \<open>
  C6. When the path read from the variable leads to a file whose text is exactly
  \<^verbatim>\<open>{"type": "service_account", "project_id": "x"}\<close>, the run succeeds and
  \<^verbatim>\<open>google_credentials\<close> is the dict with the two keys \<open>type\<close> and \<open>project_id\<close>,
  bound to \<open>service_account\<close> and \<open>x\<close>.
\<close>

theorem service_account_scenario:
  assumes \<open>credentials_path w = Some p\<close>
    and \<open>lookup_path w p = Readable (Text ''{"type": "service_account", "project_id": "x"}'')\<close>
  shows \<open>\<exists>d. fst (script w) = Inr (JObject d) \<and>
             map fst d = [''type'', ''project_id''] \<and>
             map_of d ''type'' = Some (JString ''service_account'') \<and>
             map_of d ''project_id'' = Some (JString ''x'')\<close>
proof -
  have "print_error w
      (JObject [(''type'', JString ''service_account''), (''project_id'', JString ''x'')]) = None"
    by simp
  from script_parsed [OF assms json_loads_sample limit_error_sample this]
  show ?thesis by simp
qed

theorem service_account_scenario_witness:
  \<open>\<exists>d. fst (script (key_world ''/srv/key.json''
            (Readable (Text ''{"type": "service_account", "project_id": "x"}'')) NoSuchFile)) =
          Inr (JObject d) \<and>
        map fst d = [''type'', ''project_id''] \<and>
        map_of d ''type'' = Some (JString ''service_account'') \<and>
        map_of d ''project_id'' = Some (JString ''x'')\<close>
  by (rule service_account_scenario [OF credentials_path_key_world lookup_key_world(1)])

text \<open>
  C7. Whatever the world, when the run is over no file is open. On the paths where
  \<^verbatim>\<open>open\<close> returned a file (the parse succeeds, the decoder rejects the text, a
  limit is hit, the bytes cannot be decoded, or \<^verbatim>\<open>print\<close> fails afterwards) the trace
  closes it after opening it; on the paths where no file was opened there is nothing
  to close.
\<close>

theorem file_handle_released:
  "open_files (snd (script w)) = [] \<and> unreleased (trace (snd (script w))) [] = []"
proof (cases "\<exists>e. dotenv_file w = Some (Unreadable e)")
  case True
  then obtain e where "dotenv_file w = Some (Unreadable e)" ..
  then show ?thesis by (simp add: script_dotenv_failed)
next
  case False
  then have r: "fst (load_dotenv w (initial w)) = Inr ()"
    by (simp add: load_dotenv_returns)
  show ?thesis
  proof (cases "credentials_path w")
    case None
    with credentials_path_returns [OF r]
    have "os_environ (snd (load_dotenv w (initial w))) GOOGLE_APPLICATION_CREDENTIALS = None"
      by simp
    from script_unset [OF r this] show ?thesis
      by (simp add: load_dotenv_open_files unreleased_load_dotenv)
  next
    case (Some p)
    show ?thesis
    proof (cases "\<exists>c. lookup_path w p = Readable c")
      case False
      then have "\<forall>c. lookup_path w p \<noteq> Readable c" by simp
      from script_open_failed [OF Some this] show ?thesis
        by (auto simp add: emit_def load_dotenv_open_files unreleased_append
            unreleased_load_dotenv)
    next
      case True
      then obtain c where c: "lookup_path w p = Readable c" ..
      show ?thesis
      proof (cases c)
        case Undecodable
        with c have "lookup_path w p = Readable Undecodable" by simp
        from script_undecodable [OF Some this] show ?thesis
          by (simp add: unreleased_append unreleased_load_dotenv)
      next
        case (Text t)
        with c have f: "lookup_path w p = Readable (Text t)" by simp
        show ?thesis
        proof (cases "json_loads t")
          case None
          from script_rejected [OF Some f None] show ?thesis
            by (simp add: unreleased_append unreleased_load_dotenv)
        next
          case parsed: (Some d)
          show ?thesis
          proof (cases "limit_error w t")
            case (Some e)
            from script_over_limit [OF \<open>credentials_path w = Some p\<close> f parsed Some]
            show ?thesis
              by (simp add: unreleased_append unreleased_load_dotenv)
          next
            case None
            show ?thesis
            proof (cases "print_error w d")
              case (Some e)
              from script_print_failed [OF \<open>credentials_path w = Some p\<close> f parsed None Some]
              show ?thesis
                by (simp add: unreleased_append unreleased_load_dotenv)
            next
              case no_error: None
              from script_parsed [OF \<open>credentials_path w = Some p\<close> f parsed None no_error]
              show ?thesis
                by (simp add: unreleased_append unreleased_load_dotenv)
            qed
          qed
        qed
      qed
    qed
  qed
qed

theorem file_handle_released_witness:
  "trace (snd (script (key_world ''/srv/key.json'' (Readable Undecodable) NoSuchFile))) =
     [ReadDotenv, Opened ''/srv/key.json'', ReadAll ''/srv/key.json'', Closed ''/srv/key.json''] \<and>
   open_files (snd (script (key_world ''/srv/key.json'' (Readable Undecodable) NoSuchFile))) = [] \<and>
   unreleased (trace (snd (script (key_world ''/srv/key.json'' (Readable Undecodable) NoSuchFile)))) [] = []"
proof -
  let ?w = "key_world ''/srv/key.json'' (Readable Undecodable) NoSuchFile"
  have t: "trace (snd (load_dotenv ?w (initial ?w))) = [ReadDotenv]"
    by (simp add: load_dotenv_trace dotenv_file_samples)
  from script_undecodable [OF credentials_path_key_world lookup_key_world(1)] t
    file_handle_released [of ?w]
  show ?thesis by simp
qed







end
